theory Spec2Isabelle
  imports Main "HOL-Library.Word"
begin

section \<open>Change identifiers (pkg/document/change/id.go)\<close>

text \<open>
  Go's \<open>uint32\<close> and \<open>uint64\<close> are words: \<open>+\<close> wraps around. A pointer that
  may be nil is an \<open>option\<close>. An actor identifier is a sequence of bytes.
\<close>

type_synonym u32 = "32 word"
type_synonym u64 = "64 word"
type_synonym ActorID = "8 word list"

text \<open>The struct \<open>ID\<close>: \<open>serverSeq\<close> is a \<open>*uint64\<close>, \<open>actorID\<close> a \<open>*time.ActorID\<close>.\<close>

record ID =
  clientSeq :: u32
  serverSeq :: "u64 option"
  lamport :: u64
  actorID :: "ActorID option"

text \<open>The struct \<open>time.Ticket\<close>, as \<open>time.NewTicket\<close> fills it.\<close>

record Ticket =
  ticketLamport :: u64
  ticketDelimiter :: u32
  ticketActorID :: "ActorID option"

text \<open>\<open>NewID\<close> leaves \<open>serverSeq\<close> at its zero value, the nil pointer.\<close>

definition NewID :: "u32 \<Rightarrow> u64 \<Rightarrow> ActorID option \<Rightarrow> ID" where
  "NewID cs l a = \<lparr>clientSeq = cs, serverSeq = None, lamport = l, actorID = a\<rparr>"

definition InitialID :: "ActorID option \<Rightarrow> ID" where
  "InitialID initialActorID = NewID 0 0 initialActorID"

text \<open>\<open>Next\<close> builds the struct literal itself; \<open>serverSeq\<close> is not named, so it is nil.\<close>

definition Next :: "ID \<Rightarrow> ID" where
  "Next i = \<lparr>clientSeq = clientSeq i + 1, serverSeq = None,
             lamport = lamport i + 1, actorID = actorID i\<rparr>"

definition NewTimeTicket :: "ID \<Rightarrow> u32 \<Rightarrow> Ticket" where
  "NewTimeTicket i delimiter =
     \<lparr>ticketLamport = lamport i, ticketDelimiter = delimiter, ticketActorID = actorID i\<rparr>"

definition SyncLamport :: "ID \<Rightarrow> u64 \<Rightarrow> ID" where
  "SyncLamport i otherLamport =
     (if lamport i < otherLamport then NewID (clientSeq i) otherLamport (actorID i)
      else NewID (clientSeq i) (lamport i + 1) (actorID i))"

definition SetActor :: "ID \<Rightarrow> ActorID option \<Rightarrow> ID" where
  "SetActor i actor = NewID (clientSeq i) (lamport i) actor"

definition SetServerSeq :: "ID \<Rightarrow> u64 option \<Rightarrow> ID" where
  "SetServerSeq i s = (NewID (clientSeq i) (lamport i) (actorID i))\<lparr>serverSeq := s\<rparr>"


section \<open>Errors (the Go \<open>error\<close> values that the authorization gate handles)\<close>

text \<open>
  The three sentinels of package \<open>auth\<close>, the two errors a context reports, the values
  \<open>fmt.Errorf\<close> builds (with and without a wrapped error, \<open>%w\<close>), and the errors
  that come from other packages (\<open>net/http\<close>, \<open>encoding/json\<close>, \<open>types\<close>): such an
  error is its message and the \<open>syscall.Errno\<close> found in its chain, if there is one.
  It can never be one of the sentinels of package \<open>auth\<close>. \<open>Panic\<close> is a run-time
  panic (a nil dereference), which is not a returned error.
\<close>

datatype error =
    ErrNotAllowed
  | ErrUnexpectedStatusCode
  | ErrWebhookTimeout
  | Canceled
  | DeadlineExceeded
  | Errorf string
  | ErrorfW string error
  | External string "nat option"
  | Panic

text \<open>The method \<open>Error()\<close>: the message of an error.\<close>

fun errorMessage :: "error \<Rightarrow> string" where
  "errorMessage ErrNotAllowed = ''method is not allowed for this user''"
| "errorMessage ErrUnexpectedStatusCode = ''unexpected status code from webhook''"
| "errorMessage ErrWebhookTimeout = ''webhook timeout''"
| "errorMessage Canceled = ''context canceled''"
| "errorMessage DeadlineExceeded = ''context deadline exceeded''"
| "errorMessage (Errorf m) = m"
| "errorMessage (ErrorfW m w) = m"
| "errorMessage (External m n) = m"
| "errorMessage Panic = ''invalid memory address or nil pointer dereference''"

text \<open>\<open>errors.Is\<close> walks the chain of wrapped errors, comparing each with the target.\<close>

fun errorsIs :: "error \<Rightarrow> error \<Rightarrow> bool" where
  "errorsIs (ErrorfW m w) t = (ErrorfW m w = t \<or> errorsIs w t)"
| "errorsIs e t = (e = t)"

text \<open>\<open>errors.As(err, &errno)\<close> with \<open>errno\<close> a \<open>syscall.Errno\<close>: the first one in the chain.\<close>

fun errorsAsErrno :: "error \<Rightarrow> nat option" where
  "errorsAsErrno (ErrorfW m w) = errorsAsErrno w"
| "errorsAsErrno (External m n) = n"
| "errorsAsErrno e = None"

text \<open>The verb \<open>%d\<close> of \<open>fmt\<close> on an \<open>int\<close>: decimal digits, with a sign when negative.\<close>

fun decimal :: "nat \<Rightarrow> string" where
  "decimal n =
     (if n < 10 then [''0123456789'' ! n]
      else decimal (n div 10) @ [''0123456789'' ! (n mod 10)])"

definition fmtInt :: "int \<Rightarrow> string" where
  "fmtInt i = (if i < 0 then CHR ''-'' # decimal (nat (- i)) else decimal (nat i))"

text \<open>\<open>fmt.Errorf("%s: %w", s, e)\<close>.\<close>

definition Errorf_s_w :: "string \<Rightarrow> error \<Rightarrow> error" where
  "Errorf_s_w s e = ErrorfW (s @ '': '' @ errorMessage e) e"

text \<open>The constants of \<open>net/http\<close> and \<open>syscall\<close> (Linux) that the gate names.\<close>

definition StatusOK :: int where "StatusOK = 200"
definition StatusTooManyRequests :: int where "StatusTooManyRequests = 429"
definition StatusInternalServerError :: int where "StatusInternalServerError = 500"
definition StatusBadGateway :: int where "StatusBadGateway = 502"
definition StatusServiceUnavailable :: int where "StatusServiceUnavailable = 503"
definition StatusGatewayTimeout :: int where "StatusGatewayTimeout = 504"
definition ECONNRESET :: nat where "ECONNRESET = 104"

lemmas status_defs = StatusOK_def StatusTooManyRequests_def StatusInternalServerError_def
  StatusBadGateway_def StatusServiceUnavailable_def StatusGatewayTimeout_def ECONNRESET_def


section \<open>Change packs\<close>

record Checkpoint =
  ClientSeq :: u32
  ServerSeq :: u64

record Change =
  changeID :: ID
  message :: string
  operations :: "string list"

text \<open>
  The struct \<open>change.Pack\<close>. The type of a document key (\<open>key.Key\<close>) and its rendering
  \<open>BSONKey\<close> are not part of the sources: the key type is a parameter \<open>'k\<close>, and the
  functions that render a key take \<open>BSONKey\<close> as an argument.
\<close>

record 'k Pack =
  DocumentKey :: 'k
  Checkpoint :: Checkpoint
  Changes :: "Change list"
  Snapshot :: "8 word list"
  MinSyncedTicket :: "Ticket option"

text \<open>
  Modelled from the spec: \<open>Pack.HasChanges\<close>, whose body is not part of the sources
  ("HasChanges() is true iff changes is non-empty").
\<close>

definition HasChanges :: "'k Pack \<Rightarrow> bool" where
  "HasChanges pack = (Changes pack \<noteq> [])"


section \<open>The authorization gate (package auth)\<close>

datatype Verb = Read | ReadWrite

record AccessAttribute =
  Key :: string
  Verb :: Verb

record AccessInfo =
  Method :: string
  Attributes :: "AccessAttribute list"

record AuthWebhookRequest =
  Token :: string
  Method :: string
  Attributes :: "AccessAttribute list"

record AuthWebhookResponse =
  Allowed :: bool
  Reason :: string

definition AccessAttributes :: "('k \<Rightarrow> string) \<Rightarrow> 'k Pack \<Rightarrow> AccessAttribute list" where
  "AccessAttributes BSONKey pack =
     (let verb = (if HasChanges pack then ReadWrite else Read)
      in [\<lparr>Key = BSONKey (DocumentKey pack), Verb = verb\<rparr>])"

text \<open>
  The configuration of the backend, as far as the gate reads it. \<open>RequireAuth\<close> and the
  three \<open>Parse...\<close> methods are not part of the sources: \<open>RequireAuth\<close> is a field holding
  the predicate, and the durations (in nanoseconds) are the parsed values.
\<close>

record Config =
  AuthWebhookURL :: string
  AuthWebhookMaxRetries :: u64
  RequireAuth :: "string \<Rightarrow> bool"
  ParseAuthWebhookMaxWaitInterval :: int
  ParseAuthWebhookCacheAuthTTL :: int
  ParseAuthWebhookCacheUnauthTTL :: int

text \<open>
  Modelled from the spec: the cache \<open>be.AuthWebhookCache\<close>, whose code is not part of the
  sources ("a concurrency-safe keyed mapping with per-entry TTL"). An entry is the stored
  pointer (nil is \<open>None\<close>) with the TTL it was added under; \<open>Get\<close> finds the entries
  that are present, and the passing of time, which removes entries, is not modelled.
\<close>

type_synonym Cache = "string \<rightharpoonup> (AuthWebhookResponse option \<times> int)"

definition cacheGet :: "Cache \<Rightarrow> string \<Rightarrow> (AuthWebhookResponse option \<times> int) option" where
  "cacheGet cache k = cache k"

definition cacheAdd :: "Cache \<Rightarrow> string \<Rightarrow> AuthWebhookResponse option \<Rightarrow> int \<Rightarrow> Cache" where
  "cacheAdd cache k v ttl = cache(k \<mapsto> (v, ttl))"

text \<open>
  The context of a call: the token bound to it (\<open>TokenFromCtx\<close>), whether the \<open>select\<close>
  of the wait that follows the \<open>n\<close>-th webhook call (counted from 0) takes the branch
  \<open>ctx.Done()\<close>, and which of its two errors \<open>ctx.Err()\<close> then reports.
\<close>

record Ctx =
  TokenFromCtx :: string
  ctxDone :: "nat \<Rightarrow> bool"
  ctxDeadline :: bool

definition ctxErr :: "Ctx \<Rightarrow> error" where
  "ctxErr ctx = (if ctxDeadline ctx then DeadlineExceeded else Canceled)"

text \<open>
  What the world answers: \<open>json.Marshal\<close> of the request, \<open>http.Post\<close> at the \<open>n\<close>-th
  call (counted from 0) to a URL with a body, and \<open>types.NewAuthWebhookResponse\<close> on the
  body of a response. None of them is part of the sources. Their errors are errors of
  other packages; the decoder returns a nil response together with an error.
\<close>

datatype HttpResult = PostFailed string "nat option" | PostResponse int string

record Env =
  jsonMarshal :: "AuthWebhookRequest \<Rightarrow> (string \<times> nat option) + string"
  httpPost :: "nat \<Rightarrow> string \<Rightarrow> string \<Rightarrow> HttpResult"
  NewAuthWebhookResponse :: "string \<Rightarrow> (string \<times> nat option) + AuthWebhookResponse"

definition shouldRetry :: "int \<Rightarrow> error option \<Rightarrow> bool" where
  "shouldRetry statusCode err =
     (case (case err of None \<Rightarrow> None | Some e \<Rightarrow> errorsAsErrno e) of
        Some errno \<Rightarrow> errno = ECONNRESET
      | None \<Rightarrow>
          statusCode = StatusInternalServerError \<or>
          statusCode = StatusServiceUnavailable \<or>
          statusCode = StatusGatewayTimeout \<or>
          statusCode = StatusTooManyRequests)"

text \<open>
  The loop of \<open>withExponentialBackoff\<close>. \<open>retries\<close> is a \<open>uint64\<close>; \<open>calls\<close> counts
  the calls of \<open>webhookFn\<close> made so far; \<open>s\<close> is the state the closure \<open>webhookFn\<close>
  reads and writes. \<open>statusCode\<close> is the variable declared before the loop: the loop body
  declares its own \<open>statusCode\<close> and \<open>err\<close> with \<open>:=\<close> (here \<open>sc\<close> and \<open>err\<close>), so the
  outer one is never assigned. The wait between two calls only takes time, which is not
  modelled; a loop that does not end has the value \<open>None\<close>.
\<close>

partial_function (option) backoffLoop ::
  "Ctx \<Rightarrow> Config \<Rightarrow> ('s \<Rightarrow> (int \<times> error option) \<times> 's) \<Rightarrow> int \<Rightarrow> u64 \<Rightarrow> nat \<Rightarrow> 's
     \<Rightarrow> (error option \<times> 's \<times> nat) option" where
  "backoffLoop ctx cfg webhookFn statusCode retries calls s =
     (if retries \<le> AuthWebhookMaxRetries cfg then
        (case webhookFn s of ((sc, err), s') \<Rightarrow>
           if \<not> shouldRetry sc err then
             (if err = Some ErrUnexpectedStatusCode
              then Some (Some (Errorf (''unexpected status code from webhook: '' @ fmtInt sc)),
                         s', Suc calls)
              else Some (err, s', Suc calls))
           else if ctxDone ctx calls then Some (Some (ctxErr ctx), s', Suc calls)
           else backoffLoop ctx cfg webhookFn statusCode (retries + 1) (Suc calls) s')
      else Some (Some (ErrorfW (''unexpected status code from webhook '' @ fmtInt statusCode
                                  @ '': '' @ errorMessage ErrWebhookTimeout) ErrWebhookTimeout),
                 s, calls))"

text \<open>The result: the returned error (nil is \<open>None\<close>), the closure's state, the number of calls.\<close>

definition withExponentialBackoff ::
  "Ctx \<Rightarrow> Config \<Rightarrow> ('s \<Rightarrow> (int \<times> error option) \<times> 's) \<Rightarrow> 's
     \<Rightarrow> (error option \<times> 's \<times> nat) option" where
  "withExponentialBackoff ctx cfg webhookFn s = backoffLoop ctx cfg webhookFn 0 0 0 s"

text \<open>
  The closure that \<open>VerifyAccess\<close> passes: its state is the number of POSTs made and the
  captured variable \<open>authResp\<close>.
\<close>

record WebhookState =
  posts :: nat
  authResp :: "AuthWebhookResponse option"

definition webhookFn ::
  "Env \<Rightarrow> Config \<Rightarrow> string \<Rightarrow> WebhookState \<Rightarrow> (int \<times> error option) \<times> WebhookState" where
  "webhookFn env cfg reqBody st =
     (case httpPost env (posts st) (AuthWebhookURL cfg) reqBody of
        PostFailed m n \<Rightarrow> ((0, Some (External m n)), st\<lparr>posts := Suc (posts st)\<rparr>)
      | PostResponse code body \<Rightarrow>
          if StatusOK \<noteq> code
          then ((code, Some ErrUnexpectedStatusCode), st\<lparr>posts := Suc (posts st)\<rparr>)
          else (case NewAuthWebhookResponse env body of
                  Inl (m, n) \<Rightarrow>
                    ((code, Some (External m n)), \<lparr>posts = Suc (posts st), authResp = None\<rparr>)
                | Inr r \<Rightarrow>
                    if \<not> Allowed r
                    then ((code, Some (Errorf_s_w (Reason r) ErrNotAllowed)),
                          \<lparr>posts = Suc (posts st), authResp = Some r\<rparr>)
                    else ((code, None), \<lparr>posts = Suc (posts st), authResp = Some r\<rparr>)))"

text \<open>
  \<open>VerifyAccess\<close> returns the error (nil is \<open>None\<close>), the cache as the call leaves it, and
  the number of webhook calls it made.
\<close>

definition VerifyAccess ::
  "Ctx \<Rightarrow> Env \<Rightarrow> Config \<Rightarrow> Cache \<Rightarrow> AccessInfo \<Rightarrow> (error option \<times> Cache \<times> nat) option" where
  "VerifyAccess ctx env cfg cache info =
     (if \<not> RequireAuth cfg (AccessInfo.Method info) then Some (None, cache, 0)
      else
        (case jsonMarshal env \<lparr>Token = TokenFromCtx ctx, Method = AccessInfo.Method info,
                                Attributes = AccessInfo.Attributes info\<rparr> of
           Inl (m, n) \<Rightarrow> Some (Some (External m n), cache, 0)
         | Inr reqBody \<Rightarrow>
             (let cacheKey = reqBody in
              case cacheGet cache cacheKey of
                Some (None, ttl) \<Rightarrow> Some (Some Panic, cache, 0)
              | Some (Some resp, ttl) \<Rightarrow>
                  if \<not> Allowed resp
                  then Some (Some (Errorf_s_w (Reason resp) ErrNotAllowed), cache, 0)
                  else Some (None, cache, 0)
              | None \<Rightarrow>
                  (case withExponentialBackoff ctx cfg (webhookFn env cfg reqBody)
                          \<lparr>posts = 0, authResp = None\<rparr> of
                     None \<Rightarrow> None
                   | Some (Some err, st, n) \<Rightarrow>
                       if errorsIs err ErrNotAllowed
                       then Some (Some err,
                                  cacheAdd cache cacheKey (authResp st)
                                    (ParseAuthWebhookCacheUnauthTTL cfg), n)
                       else Some (Some err, cache, n)
                   | Some (None, st, n) \<Rightarrow>
                       Some (None,
                             cacheAdd cache cacheKey (authResp st)
                               (ParseAuthWebhookCacheAuthTTL cfg), n)))))"



section \<open>The PushPull engine (package packs)\<close>

text \<open>
  Modelled from the spec: the structs \<open>db.DocInfo\<close> and \<open>db.ClientInfo\<close>, whose
  declarations are not part of the sources ("DocInfo: (id, key, serverSeq, ...)",
  "ClientInfo: (id, per-document map of {status, checkpoint})"). \<open>PushPull\<close> reads
  \<open>docInfo.ID\<close>, \<open>docInfo.ServerSeq\<close> and \<open>clientInfo.ID\<close> (as its hex string).
\<close>

record DocInfo =
  ID :: string
  ServerSeq :: u64

record ClientInfo =
  ID :: string
  Documents :: "(string \<times> Checkpoint) list"

text \<open>
  Modelled from the spec: the response \<open>ServerPack\<close>, whose declaration is not part of
  the sources, is a change pack ("accepts a ChangePack, returns a ChangePack").
\<close>

type_synonym 'k ServerPack = "'k Pack"

datatype DocEventType = DocumentsChangedEvent

record 'k DocEvent =
  Type :: DocEventType
  Publisher :: ActorID
  DocumentKeys :: "'k list"

definition NewPushPullKey :: "('k \<Rightarrow> string) \<Rightarrow> 'k \<Rightarrow> string" where
  "NewPushPullKey BSONKey documentKey = ''pushpull-'' @ BSONKey documentKey"


text \<open>
  The collaborators of \<open>PushPull\<close>, none of which is part of the sources, are fields of
  the backend. \<open>'w\<close> is the state they share (the database and the coordinator), which
  every call may read and change; \<open>'l\<close> is a locker. \<open>pushChanges\<close> returns the
  \<open>docInfo\<close> it has advanced in memory, \<open>UpdateCheckpoint\<close> the \<open>clientInfo\<close> it has
  updated. A Go \<open>error\<close> result is an \<open>error option\<close>; a value or an error is a sum.
\<close>

record ('k, 'w, 'l) Backend =
  pushChanges :: "'w \<Rightarrow> ClientInfo \<Rightarrow> DocInfo \<Rightarrow> 'k Pack \<Rightarrow> u64
                    \<Rightarrow> (error + Checkpoint \<times> Change list \<times> DocInfo) \<times> 'w"
  pullPack :: "'w \<Rightarrow> ClientInfo \<Rightarrow> DocInfo \<Rightarrow> 'k Pack \<Rightarrow> Checkpoint \<Rightarrow> u64
                 \<Rightarrow> (error + 'k ServerPack) \<times> 'w"
  UpdateCheckpoint :: "ClientInfo \<Rightarrow> string \<Rightarrow> Checkpoint \<Rightarrow> error + ClientInfo"
  CreateChangeInfos :: "'w \<Rightarrow> DocInfo \<Rightarrow> u64 \<Rightarrow> Change list \<Rightarrow> error option \<times> 'w"
  UpdateClientInfoAfterPushPull :: "'w \<Rightarrow> ClientInfo \<Rightarrow> DocInfo \<Rightarrow> error option \<times> 'w"
  UpdateAndFindMinSyncedTicket :: "'w \<Rightarrow> ClientInfo \<Rightarrow> string \<Rightarrow> u64
                                     \<Rightarrow> (error + Ticket option) \<times> 'w"
  ActorIDFromHex :: "string \<Rightarrow> error + ActorID"
  NewLocker :: "'w \<Rightarrow> string \<Rightarrow> (error + 'l) \<times> 'w"
  TryLock :: "'w \<Rightarrow> 'l \<Rightarrow> error option \<times> 'w"
  Unlock :: "'w \<Rightarrow> 'l \<Rightarrow> error option \<times> 'w"
  Publish :: "'w \<Rightarrow> ActorID \<Rightarrow> 'k DocEvent \<Rightarrow> 'w"
  storeSnapshot :: "'w \<Rightarrow> DocInfo \<Rightarrow> Ticket option \<Rightarrow> error option \<times> 'w"

text \<open>
  What a run did, in order: each call of a collaborator with the arguments (and, for two
  of them, the result) that the properties below speak about. Metrics are not recorded.
\<close>

datatype 'k Call =
    CallPushChanges u64
  | CallPullPack Checkpoint u64
  | CallUpdateCheckpoint string Checkpoint
  | CallCreateChangeInfos u64 "Change list"
  | CallUpdateClientInfoAfterPushPull
  | CallUpdateAndFindMinSyncedTicket ClientInfo string u64 "error + Ticket option"
  | CallNewLocker string
  | CallTryLock "error option"
  | CallUnlock
  | CallPublish ActorID "'k DocEvent"
  | CallStoreSnapshot DocInfo "Ticket option"
  | CallLogError error

text \<open>
  The function that \<open>PushPull\<close> hands to \<open>be.Background.AttachGoroutine\<close>, with the
  variables it captures: \<open>clientInfo\<close>, \<open>docInfo\<close>, \<open>reqPack\<close> and \<open>minSyncedTicket\<close>.
\<close>

record 'k Task =
  taskClientInfo :: ClientInfo
  taskDocInfo :: DocInfo
  taskReqPack :: "'k Pack"
  taskMinSyncedTicket :: "Ticket option"


text \<open>
  \<open>PushPull\<close> returns the response or the error, the state of the collaborators, the
  calls it made, and the task it attached, if any.
\<close>

definition PushPull ::
  "('k, 'w, 'l) Backend \<Rightarrow> 'w \<Rightarrow> ClientInfo \<Rightarrow> DocInfo \<Rightarrow> 'k Pack
     \<Rightarrow> (error + 'k ServerPack) \<times> 'w \<times> 'k Call list \<times> 'k Task option" where
  "PushPull be w clientInfo docInfo reqPack =
     (let initialServerSeq = DocInfo.ServerSeq docInfo;
          c1 = [CallPushChanges initialServerSeq]
      in
      case pushChanges be w clientInfo docInfo reqPack initialServerSeq of
        (Inl err, w1) \<Rightarrow> (Inl err, w1, c1, None)
      | (Inr (pushedCP, pushedChanges, docInfo1), w1) \<Rightarrow>
      (let c2 = c1 @ [CallPullPack pushedCP initialServerSeq] in
      case pullPack be w1 clientInfo docInfo1 reqPack pushedCP initialServerSeq of
        (Inl err, w2) \<Rightarrow> (Inl err, w2, c2, None)
      | (Inr respPack, w2) \<Rightarrow>
      (let c3 = c2 @ [CallUpdateCheckpoint (DocInfo.ID docInfo1) (Checkpoint respPack)] in
      case UpdateCheckpoint be clientInfo (DocInfo.ID docInfo1) (Checkpoint respPack) of
        Inl err \<Rightarrow> (Inl err, w2, c3, None)
      | Inr clientInfo1 \<Rightarrow>
      (let c4 = c3 @ (if length pushedChanges > 0
                      then [CallCreateChangeInfos initialServerSeq pushedChanges] else [])
       in
      case (if length pushedChanges > 0
            then CreateChangeInfos be w2 docInfo1 initialServerSeq pushedChanges
            else (None, w2)) of
        (Some err, w3) \<Rightarrow> (Inl err, w3, c4, None)
      | (None, w3) \<Rightarrow>
      (let c5 = c4 @ [CallUpdateClientInfoAfterPushPull] in
      case UpdateClientInfoAfterPushPull be w3 clientInfo1 docInfo1 of
        (Some err, w4) \<Rightarrow> (Inl err, w4, c5, None)
      | (None, w4) \<Rightarrow>
      (let (found, w5) = UpdateAndFindMinSyncedTicket be w4 clientInfo1 (DocInfo.ID docInfo1)
                           (Checkpoint.ServerSeq (Checkpoint reqPack));
           c6 = c5 @ [CallUpdateAndFindMinSyncedTicket clientInfo1 (DocInfo.ID docInfo1)
                        (Checkpoint.ServerSeq (Checkpoint reqPack)) found]
       in
      case found of
        Inl err \<Rightarrow> (Inl err, w5, c6, None)
      | Inr minSyncedTicket \<Rightarrow>
          (Inr (respPack\<lparr>MinSyncedTicket := minSyncedTicket\<rparr>), w5, c6,
           if HasChanges reqPack
           then Some \<lparr>taskClientInfo = clientInfo1, taskDocInfo = docInfo1,
                       taskReqPack = reqPack, taskMinSyncedTicket = minSyncedTicket\<rparr>
           else None)))))))"



section \<open>Notions that the properties below use\<close>


text \<open>
  What a finished webhook exchange leaves in \<open>authResp\<close>: an allowing response when no
  error is returned, and the denying response whose reason the error carries when the
  error is \<open>ErrNotAllowed\<close>.
\<close>

definition decided :: "error option \<Rightarrow> WebhookState \<Rightarrow> bool" where
  "decided res st =
     (case res of
        None \<Rightarrow> (\<exists>r. authResp st = Some r \<and> Allowed r)
      | Some e \<Rightarrow> errorsIs e ErrNotAllowed \<longrightarrow>
            (\<exists>r. authResp st = Some r \<and> \<not> Allowed r \<and> e = Errorf_s_w (Reason r) ErrNotAllowed))"




section \<open>Concrete inputs\<close>

text \<open>
  A webhook that answers \<open>code\<close> to the first \<open>N\<close> requests and then 200 with the body
  \<open>b\<close>; a decoder that knows two bodies; a context that is never cancelled; a
  configuration with \<open>m\<close> retries that requires authorization for every method.
\<close>

definition decodeBody :: "string \<Rightarrow> (string \<times> nat option) + AuthWebhookResponse" where
  "decodeBody b =
     (if b = ''allow'' then Inr \<lparr>Allowed = True, Reason = []\<rparr>
      else if b = ''deny'' then Inr \<lparr>Allowed = False, Reason = ''no''\<rparr>
      else Inl (''invalid webhook response'', None))"

definition busyEnv :: "int \<Rightarrow> nat \<Rightarrow> string \<Rightarrow> Env" where
  "busyEnv code N b =
     \<lparr>jsonMarshal = (\<lambda>r. Inr (Token r @ AuthWebhookRequest.Method r)),
      httpPost = (\<lambda>n url body. if n < N then PostResponse code [] else PostResponse 200 b),
      NewAuthWebhookResponse = decodeBody\<rparr>"

definition liveCtx :: Ctx where
  "liveCtx = \<lparr>TokenFromCtx = ''t'', ctxDone = (\<lambda>n. False), ctxDeadline = False\<rparr>"

definition cfgOf :: "u64 \<Rightarrow> Config" where
  "cfgOf m =
     \<lparr>AuthWebhookURL = ''http://hook'', AuthWebhookMaxRetries = m,
      RequireAuth = (\<lambda>method. True), ParseAuthWebhookMaxWaitInterval = 3000000000,
      ParseAuthWebhookCacheAuthTTL = 10, ParseAuthWebhookCacheUnauthTTL = 20\<rparr>"

definition pushPullInfo :: AccessInfo where
  "pushPullInfo =
     \<lparr>AccessInfo.Method = ''PushPull'',
      AccessInfo.Attributes = [\<lparr>Key = ''d'', Verb = Read\<rparr>]\<rparr>"

text \<open>
  A client at checkpoint (3, 10) of a document at server sequence 10, pushing one change
  (the spec's scenario S2), or none (S1).
\<close>

definition pushPack :: "string Pack" where
  "pushPack =
     \<lparr>DocumentKey = ''doc'', Checkpoint = \<lparr>ClientSeq = 3, Checkpoint.ServerSeq = 10\<rparr>,
      Changes = [\<lparr>changeID = NewID 4 1 None, message = ''m'', operations = []\<rparr>],
      Snapshot = [], MinSyncedTicket = None\<rparr>"

definition pullOnlyPack :: "string Pack" where
  "pullOnlyPack = pushPack\<lparr>Changes := []\<rparr>"

definition docInfo0 :: DocInfo where
  "docInfo0 = \<lparr>DocInfo.ID = ''d1'', ServerSeq = 10\<rparr>"

definition clientInfo0 :: ClientInfo where
  "clientInfo0 =
     \<lparr>ID = ''c1'', Documents = [(''d1'', \<lparr>ClientSeq = 3, Checkpoint.ServerSeq = 10\<rparr>)]\<rparr>"

text \<open>
  Collaborators that accept every change: the state counts the writes, the ticket found
  carries the sequence it was asked for, and the snapshot lock is free or held.
\<close>

definition testBackend :: "bool \<Rightarrow> (string, nat, string) Backend" where
  "testBackend lockIsFree =
     \<lparr>pushChanges = (\<lambda>w ci di pack initial.
        (Inr (\<lparr>ClientSeq = ClientSeq (Checkpoint pack) + word_of_nat (length (Changes pack)),
               Checkpoint.ServerSeq = initial + word_of_nat (length (Changes pack))\<rparr>,
              Changes pack,
              di\<lparr>ServerSeq := initial + word_of_nat (length (Changes pack))\<rparr>), w)),
      pullPack = (\<lambda>w ci di pack pushedCP initial.
        (Inr \<lparr>DocumentKey = DocumentKey pack, Checkpoint = pushedCP, Changes = [],
              Snapshot = [], MinSyncedTicket = None\<rparr>, w)),
      UpdateCheckpoint = (\<lambda>ci d cp. Inr (ci\<lparr>Documents := [(d, cp)]\<rparr>)),
      CreateChangeInfos = (\<lambda>w di initial cs. (None, w + length cs)),
      UpdateClientInfoAfterPushPull = (\<lambda>w ci di. (None, w)),
      UpdateAndFindMinSyncedTicket = (\<lambda>w ci d s.
        (Inr (Some \<lparr>ticketLamport = s, ticketDelimiter = 0, ticketActorID = None\<rparr>), w)),
      ActorIDFromHex = (\<lambda>h. Inr [193]),
      NewLocker = (\<lambda>w k. (Inr k, w)),
      TryLock = (\<lambda>w l. (if lockIsFree then None else Some (External ''locked'' None), w)),
      Unlock = (\<lambda>w l. (None, w)),
      Publish = (\<lambda>w a e. w),
      storeSnapshot = (\<lambda>w d t. (None, Suc w))\<rparr>"


text \<open>What \<open>PushPull\<close> makes of the pushing request with these collaborators.\<close>

definition ticket10 :: Ticket where
  "ticket10 = \<lparr>ticketLamport = 10, ticketDelimiter = 0, ticketActorID = None\<rparr>"







section \<open>Properties of change identifiers\<close>

text \<open>
  C9. Next, SyncLamport and SetActor return an ID whose serverSeq is nil, also when the
  receiver's serverSeq had been set with SetServerSeq: the stamped server sequence is
  dropped. SetServerSeq changes serverSeq only: clientSeq, lamport and actorID are the
  receiver's.
\<close>

theorem serverSeq_frame:
  "serverSeq (Next (SetServerSeq i s)) = None \<and>
   serverSeq (SyncLamport (SetServerSeq i s) l) = None \<and>
   serverSeq (SetActor (SetServerSeq i s) a) = None \<and>
   serverSeq (Next i) = None \<and>
   serverSeq (SyncLamport i l) = None \<and>
   serverSeq (SetActor i a) = None \<and>
   serverSeq (SetServerSeq i s) = s \<and>
   clientSeq (SetServerSeq i s) = clientSeq i \<and>
   lamport (SetServerSeq i s) = lamport i \<and>
   actorID (SetServerSeq i s) = actorID i"
  by (simp add: Next_def SyncLamport_def SetActor_def SetServerSeq_def NewID_def)

lemma word_lt_succ: "x \<noteq> - 1 \<Longrightarrow> x < x + 1" for x :: "'a::len word"
  by (meson inc_less_eq_triv_imp verit_comp_simplify1(3))

lemma word_unat_succ: "x \<noteq> - 1 \<Longrightarrow> unat (x + 1) = Suc (unat x)" for x :: "'a::len word"
  by (simp add: add.commute add_eq_0_iff unatSuc)

lemma le_max_not_top: "m \<noteq> - 1 \<Longrightarrow> r \<le> m \<Longrightarrow> r \<noteq> - 1" for r m :: "'a::len word"
  by (metis word_order.extremum_unique)

lemma no_overflow_not_top: "unat x + 1 < 2 ^ LENGTH('a) \<Longrightarrow> x \<noteq> - 1" for x :: "'a::len word"
  by (auto simp: unsigned_minus_1_eq_mask mask_eq_exp_minus_1)

lemma SyncLamport_lamport:
  "lamport (SyncLamport i l) = (if lamport i < l then l else lamport i + 1)"
  by (simp add: SyncLamport_def NewID_def)

text \<open>
  C2, as the code has it. SyncLamport(L') on an ID with lamport L returns an ID whose
  lamport is L' if L' > L and L + 1 modulo 2^64 otherwise. When L + 1 does not overflow
  (L < 2^64 - 1), the result is L' or L + 1 as a number, it is at least max(L, L'), and
  it is greater than L whenever L' \<le> L.
\<close>

theorem SyncLamport_law:
  "lamport (SyncLamport i l) = (if lamport i < l then l else lamport i + 1) \<and>
   (unat (lamport i) + 1 < 2 ^ 64 \<longrightarrow>
      unat (lamport (SyncLamport i l)) =
        (if unat (lamport i) < unat l then unat l else unat (lamport i) + 1) \<and>
      max (lamport i) l \<le> lamport (SyncLamport i l) \<and>
      (l \<le> lamport i \<longrightarrow> lamport i < lamport (SyncLamport i l)))"
proof (intro conjI impI)
  show "lamport (SyncLamport i l) = (if lamport i < l then l else lamport i + 1)"
    by (rule SyncLamport_lamport)
next
  assume "unat (lamport i) + 1 < 2 ^ 64"
  then have top: "lamport i \<noteq> - 1"
    using no_overflow_not_top[of "lamport i"] by simp
  show "unat (lamport (SyncLamport i l)) =
        (if unat (lamport i) < unat l then unat l else unat (lamport i) + 1)"
    using word_unat_succ[OF top] by (simp add: SyncLamport_lamport word_less_nat_alt)
  show "max (lamport i) l \<le> lamport (SyncLamport i l)"
    using word_lt_succ[OF top] by (auto simp: SyncLamport_lamport max_def)
  show "lamport i < lamport (SyncLamport i l)" if "l \<le> lamport i"
    using word_lt_succ[OF top] that by (auto simp: SyncLamport_lamport)
qed

theorem SyncLamport_law_witness:
  "unat (lamport (NewID 4 7 None)) + 1 < 2 ^ 64 \<and>
   lamport (SyncLamport (NewID 4 7 None) 9) = 9 \<and>
   lamport (SyncLamport (NewID 4 7 None) 3) = 8 \<and>
   (3::u64) \<le> lamport (NewID 4 7 None) \<and>
   lamport (NewID 4 7 None) < lamport (SyncLamport (NewID 4 7 None) 3)"
  using SyncLamport_law[of "NewID 4 7 None" 9] SyncLamport_law[of "NewID 4 7 None" 3]
  by (simp add: NewID_def)

text \<open>
  C2, as the spec states it, fails where the lamport is 2^64 - 1: with L' = 0 the result
  is L + 1 = 0, which is below max(L, L') and not above L.
\<close>

theorem SyncLamport_wrap_counterexample:
  "lamport (SyncLamport (NewID 0 18446744073709551615 None) 0) = 0 \<and>
   \<not> max (lamport (NewID 0 18446744073709551615 None)) 0
       \<le> lamport (SyncLamport (NewID 0 18446744073709551615 None) 0) \<and>
   (0::u64) \<le> lamport (NewID 0 18446744073709551615 None) \<and>
   \<not> lamport (NewID 0 18446744073709551615 None)
       < lamport (SyncLamport (NewID 0 18446744073709551615 None) 0)"
  by (simp add: SyncLamport_def NewID_def)

text \<open>
  C10. The arithmetic of Next is modulo 2^32 on clientSeq and modulo 2^64 on lamport: for
  an ID whose clientSeq is 2^32 - 1, Next returns clientSeq 0, which is below the
  receiver's, so clientSeq does not increase there.
\<close>

theorem Next_wraps:
  "unat (clientSeq (Next i)) = (unat (clientSeq i) + 1) mod 2 ^ 32 \<and>
   unat (lamport (Next i)) = (unat (lamport i) + 1) mod 2 ^ 64 \<and>
   (clientSeq i = 4294967295 \<longrightarrow>
      clientSeq (Next i) = 0 \<and> clientSeq (Next i) < clientSeq i)"
  by (simp add: Next_def unat_word_ariths)

theorem Next_wraps_witness:
  "clientSeq (NewID 4294967295 5 None) = 4294967295 \<and>
   clientSeq (Next (NewID 4294967295 5 None)) = 0 \<and>
   clientSeq (Next (NewID 4294967295 5 None)) < clientSeq (NewID 4294967295 5 None) \<and>
   lamport (Next (NewID 4294967295 5 None)) = 6"
  using Next_wraps[of "NewID 4294967295 5 None"]
  by (simp add: NewID_def Next_def)

section \<open>Properties of the authorization gate\<close>

text \<open>
  C7. For every change pack, AccessAttributes returns exactly one attribute: its key is
  the pack's document key, and its verb is Read when the pack has no changes and
  ReadWrite when it has at least one.
\<close>

theorem AccessAttributes_single:
  "AccessAttributes BSONKey pack =
     [\<lparr>Key = BSONKey (DocumentKey pack),
       Verb = (if Changes pack = [] then Read else ReadWrite)\<rparr>]"
  by (simp add: AccessAttributes_def HasChanges_def)

theorem AccessAttributes_single_witness:
  "AccessAttributes (\<lambda>k. k) pullOnlyPack = [\<lparr>Key = ''doc'', Verb = Read\<rparr>] \<and>
   AccessAttributes (\<lambda>k. k) pushPack = [\<lparr>Key = ''doc'', Verb = ReadWrite\<rparr>]"
  using AccessAttributes_single[of "\<lambda>k. k" pullOnlyPack]
    AccessAttributes_single[of "\<lambda>k. k" pushPack]
  by (simp add: pullOnlyPack_def pushPack_def)

subsection \<open>The retry loop\<close>

lemma cfgOf_max [simp]: "AuthWebhookMaxRetries (cfgOf m) = m"
  by (simp add: cfgOf_def)

lemma liveCtx_done [simp]: "ctxDone liveCtx n = False"
  by (simp add: liveCtx_def)

lemma shouldRetry_503: "shouldRetry 503 (Some ErrUnexpectedStatusCode)"
  by (simp add: shouldRetry_def status_defs)

lemma shouldRetry_200: "\<not> shouldRetry 200 None"
  by (simp add: shouldRetry_def status_defs)

text \<open>
  From \<open>retries\<close>, the loop makes at most as many calls as there are values of
  \<open>retries\<close> up to the maximum, provided the maximum is not the last \<open>uint64\<close>.
\<close>

lemma backoffLoop_bounded:
  assumes m: "AuthWebhookMaxRetries cfg \<noteq> - 1"
  shows "unat (AuthWebhookMaxRetries cfg) + 1 - unat retries = k \<Longrightarrow>
         \<exists>e s' n. backoffLoop ctx cfg fn z retries calls s = Some (e, s', n) \<and>
            calls \<le> n \<and> n \<le> calls + k"
proof (induction k arbitrary: retries calls s)
  case 0
  then have "\<not> retries \<le> AuthWebhookMaxRetries cfg"
    by (simp add: word_le_nat_alt)
  then show ?case
    by (simp add: backoffLoop.simps)
next
  case (Suc k)
  then have le: "retries \<le> AuthWebhookMaxRetries cfg"
    by (simp add: word_le_nat_alt)
  then have "retries \<noteq> - 1"
    using m by (rule le_max_not_top[rotated])
  then have u: "unat (retries + 1) = Suc (unat retries)"
    by (rule word_unat_succ)
  have k: "unat (AuthWebhookMaxRetries cfg) + 1 - unat (retries + 1) = k"
    using Suc.prems u by simp
  obtain sc err s' where f: "fn s = ((sc, err), s')"
    by (metis prod.exhaust)
  show ?case
  proof (cases "shouldRetry sc err \<and> \<not> ctxDone ctx calls")
    case True
    from Suc.IH[OF k, of "Suc calls" s'] obtain e s'' n where
      "backoffLoop ctx cfg fn z (retries + 1) (Suc calls) s' = Some (e, s'', n)"
      "Suc calls \<le> n" "n \<le> Suc calls + k"
      by blast
    with True le f show ?thesis
      by (subst backoffLoop.simps) simp
  next
    case False
    with le f show ?thesis
      by (subst backoffLoop.simps) auto
  qed
qed

lemma withExponentialBackoff_bounded:
  assumes "AuthWebhookMaxRetries cfg \<noteq> - 1"
  shows "\<exists>e s' n. withExponentialBackoff ctx cfg fn s = Some (e, s', n) \<and>
            n \<le> unat (AuthWebhookMaxRetries cfg) + 1"
  using backoffLoop_bounded[OF assms, of 0 _ ctx fn 0 0 s, OF refl]
  by (simp add: withExponentialBackoff_def)

lemma VerifyAccess_bounded:
  assumes "AuthWebhookMaxRetries cfg \<noteq> - 1"
  shows "\<exists>e c n. VerifyAccess ctx env cfg cache info = Some (e, c, n) \<and>
            n \<le> unat (AuthWebhookMaxRetries cfg) + 1"
proof (cases "\<exists>reqBody. RequireAuth cfg (AccessInfo.Method info) \<and>
    jsonMarshal env \<lparr>Token = TokenFromCtx ctx, Method = AccessInfo.Method info,
      Attributes = AccessInfo.Attributes info\<rparr> = Inr reqBody \<and> cacheGet cache reqBody = None")
  case True
  then obtain reqBody where b: "RequireAuth cfg (AccessInfo.Method info)"
    "jsonMarshal env \<lparr>Token = TokenFromCtx ctx, Method = AccessInfo.Method info,
      Attributes = AccessInfo.Attributes info\<rparr> = Inr reqBody" "cacheGet cache reqBody = None"
    by blast
  from withExponentialBackoff_bounded[OF assms, of ctx "webhookFn env cfg reqBody"
      "\<lparr>posts = 0, authResp = None\<rparr>"]
  obtain e s' n where
    "withExponentialBackoff ctx cfg (webhookFn env cfg reqBody) \<lparr>posts = 0, authResp = None\<rparr>
       = Some (e, s', n)" "n \<le> unat (AuthWebhookMaxRetries cfg) + 1"
    by blast
  with b show ?thesis
    by (cases e) (simp_all add: VerifyAccess_def)
next
  case False
  then show ?thesis
    by (auto simp: VerifyAccess_def Let_def split: sum.splits option.splits prod.splits)
qed

text \<open>
  C3, as the code has it. When the configured maximum of retries is below 2^64 - 1,
  withExponentialBackoff terminates after at most maxRetries + 1 calls of the webhook
  function, whatever that function and the context do; so does every VerifyAccess call.
\<close>

theorem retry_bound:
  assumes "unat (AuthWebhookMaxRetries cfg) + 1 < 2 ^ 64"
  shows "(\<exists>e s' n. withExponentialBackoff ctx cfg fn s = Some (e, s', n) \<and>
            n \<le> unat (AuthWebhookMaxRetries cfg) + 1) \<and>
         (\<exists>e c n. VerifyAccess ctx env cfg cache info = Some (e, c, n) \<and>
            n \<le> unat (AuthWebhookMaxRetries cfg) + 1)"
proof -
  have "AuthWebhookMaxRetries cfg \<noteq> - 1"
    using assms no_overflow_not_top[of "AuthWebhookMaxRetries cfg"] by simp
  then show ?thesis
    by (intro conjI withExponentialBackoff_bounded VerifyAccess_bounded)
qed

theorem retry_bound_witness:
  "unat (AuthWebhookMaxRetries (cfgOf 3)) + 1 < 2 ^ 64 \<and>
   (\<exists>e c n. VerifyAccess liveCtx (busyEnv 503 7 ''allow'') (cfgOf 3) Map.empty pushPullInfo
              = Some (e, c, n) \<and> n \<le> 4)"
proof -
  have h: "unat (AuthWebhookMaxRetries (cfgOf 3)) + 1 < 2 ^ 64"
    by simp
  show ?thesis
    using h retry_bound[OF h, of liveCtx "webhookFn (busyEnv 503 7 ''allow'') (cfgOf 3) []"
        "\<lparr>posts = 0, authResp = None\<rparr>" "busyEnv 503 7 ''allow''" Map.empty pushPullInfo]
    by simp
qed

text \<open>
  With the maximum at 2^64 - 1 the counter \<open>retries\<close> wraps and the loop goes on for as
  long as the webhook answers 503.
\<close>

lemma max_u64: "(18446744073709551615::u64) = - 1"
  by simp

lemma busy_loop:
  "N - posts st = k \<Longrightarrow> posts st \<le> N \<Longrightarrow>
     backoffLoop liveCtx (cfgOf (- 1)) (webhookFn (busyEnv 503 N ''allow'') (cfgOf (- 1)) body)
        z r calls st
       = Some (None, \<lparr>posts = Suc N, authResp = Some \<lparr>Allowed = True, Reason = []\<rparr>\<rparr>,
               calls + k + 1)"
proof (induction k arbitrary: st r calls)
  case 0
  then have p: "posts st = N"
    by simp
  then have "webhookFn (busyEnv 503 N ''allow'') (cfgOf (- 1)) body st =
      ((200, None), \<lparr>posts = Suc N, authResp = Some \<lparr>Allowed = True, Reason = []\<rparr>\<rparr>)"
    by (simp add: webhookFn_def busyEnv_def StatusOK_def decodeBody_def)
  then show ?case
    by (subst backoffLoop.simps) (simp add: shouldRetry_200)
next
  case (Suc k)
  then have p: "posts st < N"
    by simp
  then have w: "webhookFn (busyEnv 503 N ''allow'') (cfgOf (- 1)) body st =
      ((503, Some ErrUnexpectedStatusCode), st\<lparr>posts := Suc (posts st)\<rparr>)"
    by (simp add: webhookFn_def busyEnv_def StatusOK_def)
  have "backoffLoop liveCtx (cfgOf (- 1))
          (webhookFn (busyEnv 503 N ''allow'') (cfgOf (- 1)) body) z (r + 1)
          (Suc calls) (st\<lparr>posts := Suc (posts st)\<rparr>)
        = Some (None, \<lparr>posts = Suc N, authResp = Some \<lparr>Allowed = True, Reason = []\<rparr>\<rparr>,
                Suc calls + k + 1)"
    using Suc.prems by (intro Suc.IH) auto
  then show ?case
    by (subst backoffLoop.simps) (simp add: w shouldRetry_503)
qed

lemma busy_VerifyAccess:
  "VerifyAccess liveCtx (busyEnv 503 N ''allow'') (cfgOf (- 1)) Map.empty pushPullInfo =
     Some (None, [''tPushPull'' \<mapsto> (Some \<lparr>Allowed = True, Reason = []\<rparr>, 10)], N + 1)"
  using busy_loop[of N "\<lparr>posts = 0, authResp = None\<rparr>" N "''tPushPull''" 0 0 0]
  by (simp add: VerifyAccess_def withExponentialBackoff_def cacheGet_def cacheAdd_def
        busyEnv_def pushPullInfo_def liveCtx_def cfgOf_def)

text \<open>
  C3, as the spec states it, fails for the maximum 2^64 - 1: against a webhook that
  answers 503 to its first 2^64 + 1 requests and then allows, VerifyAccess returns after
  2^64 + 2 calls, more than maxRetries + 1 = 2^64.
\<close>

theorem retry_bound_counterexample:
  "VerifyAccess liveCtx (busyEnv 503 18446744073709551617 ''allow'')
      (cfgOf 18446744073709551615) Map.empty pushPullInfo =
     Some (None, [''tPushPull'' \<mapsto> (Some \<lparr>Allowed = True, Reason = []\<rparr>, 10)],
           18446744073709551618) \<and>
   unat (AuthWebhookMaxRetries (cfgOf 18446744073709551615)) + 1 < 18446744073709551618"
  using busy_VerifyAccess[of 18446744073709551617]
  by (simp add: max_u64 unsigned_minus_1_eq_mask mask_eq_exp_minus_1)

subsection \<open>What is retried\<close>




subsection \<open>Exhausted retries\<close>

text \<open>
  C6. When the retries are exhausted, withExponentialBackoff returns an error that wraps
  WebhookTimeout, but its message does not carry the status of the last attempt: with one
  retry configured and a webhook that answers 503 twice, the message names the status 0.
\<close>

theorem timeout_status_is_zero:
  "VerifyAccess liveCtx (busyEnv 503 5 ''allow'') (cfgOf 1) Map.empty pushPullInfo =
     Some (Some (ErrorfW ''unexpected status code from webhook 0: webhook timeout''
                   ErrWebhookTimeout),
           Map.empty, 2)"
  by (simp add: VerifyAccess_def withExponentialBackoff_def backoffLoop.simps webhookFn_def
        busyEnv_def decodeBody_def liveCtx_def cfgOf_def pushPullInfo_def cacheGet_def
        shouldRetry_def status_defs fmtInt_def word_le_nat_alt)

subsection \<open>What is cached\<close>

lemma errorsIs_Errorf_s_w [simp]:
  "errorsIs (Errorf_s_w s e) t = (Errorf_s_w s e = t \<or> errorsIs e t)"
  by (simp add: Errorf_s_w_def)

lemma webhookFn_outcome:
  assumes "webhookFn env cfg body st = ((sc, err), st')"
  shows "err = None \<longrightarrow> sc = 200 \<and> (\<exists>r. authResp st' = Some r \<and> Allowed r)"
    and "err = Some e \<Longrightarrow> errorsIs e ErrNotAllowed \<Longrightarrow>
           \<exists>r. authResp st' = Some r \<and> \<not> Allowed r \<and> e = Errorf_s_w (Reason r) ErrNotAllowed"
  using assms
  by (auto simp: webhookFn_def StatusOK_def Errorf_s_w_def
        split: HttpResult.splits if_splits sum.splits prod.splits)

lemma backoffLoop_decided:
  assumes "backoffLoop ctx cfg (webhookFn env cfg body) z r calls st = Some (res, st', n)"
  shows "decided res st'"
proof -
  have "webhookFn env cfg body = webhookFn env cfg body \<longrightarrow>
          decided (fst (res, st', n)) (fst (snd (res, st', n)))"
  proof (rule backoffLoop.raw_induct[where
        P = "\<lambda>ctx' cfg' fn z r calls st y.
               fn = webhookFn env cfg body \<longrightarrow> decided (fst y) (fst (snd y))", OF _ assms])
    fix loop :: "Ctx \<Rightarrow> Config \<Rightarrow> (WebhookState \<Rightarrow> (int \<times> error option) \<times> WebhookState)
        \<Rightarrow> int \<Rightarrow> u64 \<Rightarrow> nat \<Rightarrow> WebhookState \<Rightarrow> (error option \<times> WebhookState \<times> nat) option"
      and ctx' cfg' fn z r calls st y
    assume IH: "\<And>ctx' cfg' fn z r calls st y. loop ctx' cfg' fn z r calls st = Some y \<Longrightarrow>
                  fn = webhookFn env cfg body \<longrightarrow> decided (fst y) (fst (snd y))"
      and step: "(if r \<le> AuthWebhookMaxRetries cfg' then
        (case fn st of ((sc, err), s') \<Rightarrow>
           if \<not> shouldRetry sc err then
             (if err = Some ErrUnexpectedStatusCode
              then Some (Some (Errorf (''unexpected status code from webhook: '' @ fmtInt sc)),
                         s', Suc calls)
              else Some (err, s', Suc calls))
           else if ctxDone ctx' calls then Some (Some (ctxErr ctx'), s', Suc calls)
           else loop ctx' cfg' fn z (r + 1) (Suc calls) s')
      else Some (Some (ErrorfW (''unexpected status code from webhook '' @ fmtInt z
                                  @ '': '' @ errorMessage ErrWebhookTimeout) ErrWebhookTimeout),
                 st, calls)) = Some y"
    show "fn = webhookFn env cfg body \<longrightarrow> decided (fst y) (fst (snd y))"
    proof
      assume fn: "fn = webhookFn env cfg body"
      obtain sc err s' where w: "webhookFn env cfg body st = ((sc, err), s')"
        by (metis prod.exhaust)
      note o = webhookFn_outcome[OF w]
      show "decided (fst y) (fst (snd y))"
      proof (cases "r \<le> AuthWebhookMaxRetries cfg'")
        case False
        with step show ?thesis
          by (auto simp: decided_def)
      next
        case le: True
        show ?thesis
        proof (cases "shouldRetry sc err")
          case False
          with le step fn w o show ?thesis
            by (auto simp: decided_def split: if_splits option.splits)
        next
          case sr: True
          show ?thesis
          proof (cases "ctxDone ctx' calls")
            case True
            with sr le step fn w show ?thesis
              by (auto simp: decided_def ctxErr_def)
          next
            case False
            with sr le step fn w
            have "loop ctx' cfg' fn z (r + 1) (Suc calls) s' = Some y"
              by simp
            from IH[OF this] fn show ?thesis
              by simp
          qed
        qed
      qed
    qed
  qed
  then show ?thesis
    by simp
qed

text \<open>
  The three exchanges used below: a webhook that answers 503 twice and then denies, one
  that answers 503 twice and then allows, and one that answers 404.
\<close>

lemma exchange_deny:
  "withExponentialBackoff liveCtx (cfgOf 5)
     (webhookFn (busyEnv 503 2 ''deny'') (cfgOf 5) ''tPushPull'') \<lparr>posts = 0, authResp = None\<rparr>
   = Some (Some (ErrorfW ''no: method is not allowed for this user'' ErrNotAllowed),
           \<lparr>posts = 3, authResp = Some \<lparr>Allowed = False, Reason = ''no''\<rparr>\<rparr>, 3)"
  by (simp add: withExponentialBackoff_def backoffLoop.simps webhookFn_def busyEnv_def
        decodeBody_def liveCtx_def cfgOf_def shouldRetry_def status_defs Errorf_s_w_def
        word_le_nat_alt)

lemma exchange_allow:
  "withExponentialBackoff liveCtx (cfgOf 5)
     (webhookFn (busyEnv 503 2 ''allow'') (cfgOf 5) ''tPushPull'') \<lparr>posts = 0, authResp = None\<rparr>
   = Some (None, \<lparr>posts = 3, authResp = Some \<lparr>Allowed = True, Reason = []\<rparr>\<rparr>, 3)"
  by (simp add: withExponentialBackoff_def backoffLoop.simps webhookFn_def busyEnv_def
        decodeBody_def liveCtx_def cfgOf_def shouldRetry_def status_defs Errorf_s_w_def
        word_le_nat_alt)

lemma exchange_not_found:
  "withExponentialBackoff liveCtx (cfgOf 5)
     (webhookFn (busyEnv 404 2 ''allow'') (cfgOf 5) ''tPushPull'') \<lparr>posts = 0, authResp = None\<rparr>
   = Some (Some (Errorf ''unexpected status code from webhook: 404''),
           \<lparr>posts = 1, authResp = None\<rparr>, 1)"
  by (simp add: withExponentialBackoff_def backoffLoop.simps webhookFn_def busyEnv_def
        decodeBody_def liveCtx_def cfgOf_def shouldRetry_def status_defs fmtInt_def
        word_le_nat_alt)

text \<open>
  C4. A VerifyAccess call that requires authorization and misses the cache returns what
  the webhook exchange (withExponentialBackoff over the webhook function) results in, and
  makes as many webhook calls. When the exchange ends without an error, the webhook has
  allowed: VerifyAccess returns success and the cache gains the allowing response under
  the auth TTL. When it ends with a NotAllowed error, the webhook has denied: VerifyAccess
  returns that error, which carries the reason of the denial, and the cache gains the
  denying response under the unauth TTL. When it ends with any other error, VerifyAccess
  returns that error and the cache is unchanged. An exchange that does not end leaves
  VerifyAccess without a result. In particular, a first answer 200 with a body that
  decodes to a response decides the call at once. Read from the result of VerifyAccess,
  the cache is as that result says.
\<close>

theorem VerifyAccess_cache_miss:
  assumes auth: "RequireAuth cfg (AccessInfo.Method info)"
    and body: "jsonMarshal env \<lparr>Token = TokenFromCtx ctx, Method = AccessInfo.Method info,
                 Attributes = AccessInfo.Attributes info\<rparr> = Inr reqBody"
    and miss: "cacheGet cache reqBody = None"
  shows "(\<forall>r st n.
            withExponentialBackoff ctx cfg (webhookFn env cfg reqBody)
              \<lparr>posts = 0, authResp = None\<rparr> = Some (r, st, n) \<longrightarrow>
            (case r of
               None \<Rightarrow>
                 \<exists>resp. authResp st = Some resp \<and> Allowed resp \<and>
                   VerifyAccess ctx env cfg cache info =
                     Some (None,
                           cacheAdd cache reqBody (Some resp) (ParseAuthWebhookCacheAuthTTL cfg),
                           n)
             | Some e \<Rightarrow>
                 if errorsIs e ErrNotAllowed
                 then \<exists>resp. authResp st = Some resp \<and> \<not> Allowed resp \<and>
                        e = Errorf_s_w (Reason resp) ErrNotAllowed \<and>
                        VerifyAccess ctx env cfg cache info =
                          Some (Some e,
                                cacheAdd cache reqBody (Some resp)
                                  (ParseAuthWebhookCacheUnauthTTL cfg),
                                n)
                 else VerifyAccess ctx env cfg cache info = Some (Some e, cache, n))) \<and>
         (withExponentialBackoff ctx cfg (webhookFn env cfg reqBody)
            \<lparr>posts = 0, authResp = None\<rparr> = None \<longrightarrow>
          VerifyAccess ctx env cfg cache info = None) \<and>
         (\<forall>b resp.
            httpPost env 0 (AuthWebhookURL cfg) reqBody = PostResponse StatusOK b \<longrightarrow>
            NewAuthWebhookResponse env b = Inr resp \<longrightarrow>
            VerifyAccess ctx env cfg cache info =
              (if Allowed resp
               then Some (None,
                          cacheAdd cache reqBody (Some resp) (ParseAuthWebhookCacheAuthTTL cfg),
                          1)
               else Some (Some (Errorf_s_w (Reason resp) ErrNotAllowed),
                          cacheAdd cache reqBody (Some resp)
                            (ParseAuthWebhookCacheUnauthTTL cfg),
                          1))) \<and>
         (\<forall>res cache' n.
            VerifyAccess ctx env cfg cache info = Some (res, cache', n) \<longrightarrow>
            (case res of
               None \<Rightarrow>
                 \<exists>resp. Allowed resp \<and>
                   cache' = cacheAdd cache reqBody (Some resp) (ParseAuthWebhookCacheAuthTTL cfg)
             | Some e \<Rightarrow>
                 if errorsIs e ErrNotAllowed
                 then \<exists>resp. \<not> Allowed resp \<and> e = Errorf_s_w (Reason resp) ErrNotAllowed \<and>
                        cache' = cacheAdd cache reqBody (Some resp)
                                   (ParseAuthWebhookCacheUnauthTTL cfg)
                 else cache' = cache))"
proof -
  let ?exchange = "withExponentialBackoff ctx cfg (webhookFn env cfg reqBody)
                     \<lparr>posts = 0, authResp = None\<rparr>"
  have miss_eq: "VerifyAccess ctx env cfg cache info =
      (case ?exchange of
         None \<Rightarrow> None
       | Some (Some err, st, n) \<Rightarrow>
           if errorsIs err ErrNotAllowed
           then Some (Some err,
                      cacheAdd cache reqBody (authResp st) (ParseAuthWebhookCacheUnauthTTL cfg),
                      n)
           else Some (Some err, cache, n)
       | Some (None, st, n) \<Rightarrow>
           Some (None,
                 cacheAdd cache reqBody (authResp st) (ParseAuthWebhookCacheAuthTTL cfg), n))"
    using auth body miss by (simp add: VerifyAccess_def)
  have dec: "decided r st" if "?exchange = Some (r, st, n)" for r st n
    using that unfolding withExponentialBackoff_def by (rule backoffLoop_decided)
  have forward: "\<forall>r st n. ?exchange = Some (r, st, n) \<longrightarrow>
            (case r of
               None \<Rightarrow>
                 \<exists>resp. authResp st = Some resp \<and> Allowed resp \<and>
                   VerifyAccess ctx env cfg cache info =
                     Some (None,
                           cacheAdd cache reqBody (Some resp) (ParseAuthWebhookCacheAuthTTL cfg),
                           n)
             | Some e \<Rightarrow>
                 if errorsIs e ErrNotAllowed
                 then \<exists>resp. authResp st = Some resp \<and> \<not> Allowed resp \<and>
                        e = Errorf_s_w (Reason resp) ErrNotAllowed \<and>
                        VerifyAccess ctx env cfg cache info =
                          Some (Some e,
                                cacheAdd cache reqBody (Some resp)
                                  (ParseAuthWebhookCacheUnauthTTL cfg),
                                n)
                 else VerifyAccess ctx env cfg cache info = Some (Some e, cache, n))"
  proof (intro allI impI)
    fix r st n
    assume ex: "?exchange = Some (r, st, n)"
    from dec[OF ex] show "case r of
               None \<Rightarrow>
                 \<exists>resp. authResp st = Some resp \<and> Allowed resp \<and>
                   VerifyAccess ctx env cfg cache info =
                     Some (None,
                           cacheAdd cache reqBody (Some resp) (ParseAuthWebhookCacheAuthTTL cfg),
                           n)
             | Some e \<Rightarrow>
                 if errorsIs e ErrNotAllowed
                 then \<exists>resp. authResp st = Some resp \<and> \<not> Allowed resp \<and>
                        e = Errorf_s_w (Reason resp) ErrNotAllowed \<and>
                        VerifyAccess ctx env cfg cache info =
                          Some (Some e,
                                cacheAdd cache reqBody (Some resp)
                                  (ParseAuthWebhookCacheUnauthTTL cfg),
                                n)
                 else VerifyAccess ctx env cfg cache info = Some (Some e, cache, n)"
      by (cases r) (auto simp: miss_eq ex decided_def)
  qed
  have diverge: "?exchange = None \<longrightarrow> VerifyAccess ctx env cfg cache info = None"
    by (simp add: miss_eq)
  have first: "\<forall>b resp.
            httpPost env 0 (AuthWebhookURL cfg) reqBody = PostResponse StatusOK b \<longrightarrow>
            NewAuthWebhookResponse env b = Inr resp \<longrightarrow>
            VerifyAccess ctx env cfg cache info =
              (if Allowed resp
               then Some (None,
                          cacheAdd cache reqBody (Some resp) (ParseAuthWebhookCacheAuthTTL cfg),
                          1)
               else Some (Some (Errorf_s_w (Reason resp) ErrNotAllowed),
                          cacheAdd cache reqBody (Some resp)
                            (ParseAuthWebhookCacheUnauthTTL cfg),
                          1))"
  proof (intro allI impI)
    fix b resp
    assume p: "httpPost env 0 (AuthWebhookURL cfg) reqBody = PostResponse StatusOK b"
      and d: "NewAuthWebhookResponse env b = Inr resp"
    have w: "webhookFn env cfg reqBody \<lparr>posts = 0, authResp = None\<rparr> =
        ((StatusOK, if Allowed resp then None else Some (Errorf_s_w (Reason resp) ErrNotAllowed)),
         \<lparr>posts = 1, authResp = Some resp\<rparr>)"
      using p d by (simp add: webhookFn_def)
    have nr: "\<not> shouldRetry StatusOK
                 (if Allowed resp then None else Some (Errorf_s_w (Reason resp) ErrNotAllowed))"
      by (simp add: shouldRetry_def status_defs Errorf_s_w_def)
    have "?exchange =
        Some (if Allowed resp then None else Some (Errorf_s_w (Reason resp) ErrNotAllowed),
              \<lparr>posts = 1, authResp = Some resp\<rparr>, 1)"
      unfolding withExponentialBackoff_def
      by (subst backoffLoop.simps) (use nr in \<open>simp add: w Errorf_s_w_def\<close>)
    then show "VerifyAccess ctx env cfg cache info =
              (if Allowed resp
               then Some (None,
                          cacheAdd cache reqBody (Some resp) (ParseAuthWebhookCacheAuthTTL cfg),
                          1)
               else Some (Some (Errorf_s_w (Reason resp) ErrNotAllowed),
                          cacheAdd cache reqBody (Some resp)
                            (ParseAuthWebhookCacheUnauthTTL cfg),
                          1))"
      by (simp add: miss_eq)
  qed
  have backward: "\<forall>res cache' n.
            VerifyAccess ctx env cfg cache info = Some (res, cache', n) \<longrightarrow>
            (case res of
               None \<Rightarrow>
                 \<exists>resp. Allowed resp \<and>
                   cache' = cacheAdd cache reqBody (Some resp) (ParseAuthWebhookCacheAuthTTL cfg)
             | Some e \<Rightarrow>
                 if errorsIs e ErrNotAllowed
                 then \<exists>resp. \<not> Allowed resp \<and> e = Errorf_s_w (Reason resp) ErrNotAllowed \<and>
                        cache' = cacheAdd cache reqBody (Some resp)
                                   (ParseAuthWebhookCacheUnauthTTL cfg)
                 else cache' = cache)"
  proof (intro allI impI)
    fix res cache' n
    assume ret: "VerifyAccess ctx env cfg cache info = Some (res, cache', n)"
    then obtain r st k where ex: "?exchange = Some (r, st, k)"
      by (auto simp: miss_eq split: option.splits)
    from dec[OF ex] ret show "case res of
               None \<Rightarrow>
                 \<exists>resp. Allowed resp \<and>
                   cache' = cacheAdd cache reqBody (Some resp) (ParseAuthWebhookCacheAuthTTL cfg)
             | Some e \<Rightarrow>
                 if errorsIs e ErrNotAllowed
                 then \<exists>resp. \<not> Allowed resp \<and> e = Errorf_s_w (Reason resp) ErrNotAllowed \<and>
                        cache' = cacheAdd cache reqBody (Some resp)
                                   (ParseAuthWebhookCacheUnauthTTL cfg)
                 else cache' = cache"
      by (auto simp: miss_eq ex decided_def split: option.splits if_splits)
  qed
  from forward diverge first backward show ?thesis
    by (intro conjI)
qed

text \<open>
  At a webhook that denies after two 503 answers, one that allows after two, and one that
  answers 404, each from an empty cache: the denial is returned and cached for 20, the
  allowance is cached for 10, and the unexpected status is returned with nothing cached.
\<close>

theorem VerifyAccess_cache_miss_witness:
  "RequireAuth (cfgOf 5) (AccessInfo.Method pushPullInfo) \<and>
   jsonMarshal (busyEnv 503 2 ''deny'')
     \<lparr>Token = TokenFromCtx liveCtx, Method = AccessInfo.Method pushPullInfo,
      Attributes = AccessInfo.Attributes pushPullInfo\<rparr> = Inr ''tPushPull'' \<and>
   cacheGet Map.empty ''tPushPull'' = None \<and>
   VerifyAccess liveCtx (busyEnv 503 2 ''deny'') (cfgOf 5) Map.empty pushPullInfo =
     Some (Some (ErrorfW ''no: method is not allowed for this user'' ErrNotAllowed),
           [''tPushPull'' \<mapsto> (Some \<lparr>Allowed = False, Reason = ''no''\<rparr>, 20)], 3) \<and>
   VerifyAccess liveCtx (busyEnv 503 2 ''allow'') (cfgOf 5) Map.empty pushPullInfo =
     Some (None, [''tPushPull'' \<mapsto> (Some \<lparr>Allowed = True, Reason = []\<rparr>, 10)], 3) \<and>
   VerifyAccess liveCtx (busyEnv 404 2 ''allow'') (cfgOf 5) Map.empty pushPullInfo =
     Some (Some (Errorf ''unexpected status code from webhook: 404''), Map.empty, 1) \<and>
   VerifyAccess liveCtx (busyEnv 503 0 ''deny'') (cfgOf 5) Map.empty pushPullInfo =
     Some (Some (ErrorfW ''no: method is not allowed for this user'' ErrNotAllowed),
           [''tPushPull'' \<mapsto> (Some \<lparr>Allowed = False, Reason = ''no''\<rparr>, 20)], 1)"
proof -
  have a: "RequireAuth (cfgOf 5) (AccessInfo.Method pushPullInfo)"
    by (simp add: cfgOf_def)
  have b: "jsonMarshal (busyEnv code N answer)
     \<lparr>Token = TokenFromCtx liveCtx, Method = AccessInfo.Method pushPullInfo,
      Attributes = AccessInfo.Attributes pushPullInfo\<rparr> = Inr ''tPushPull''"
    for code N answer
    by (simp add: busyEnv_def liveCtx_def pushPullInfo_def)
  have c: "cacheGet Map.empty ''tPushPull'' = None"
    by (simp add: cacheGet_def)
  note miss = VerifyAccess_cache_miss[OF a b c]
  have deny: "VerifyAccess liveCtx (busyEnv 503 2 ''deny'') (cfgOf 5) Map.empty pushPullInfo =
     Some (Some (ErrorfW ''no: method is not allowed for this user'' ErrNotAllowed),
           [''tPushPull'' \<mapsto> (Some \<lparr>Allowed = False, Reason = ''no''\<rparr>, 20)], 3)"
    using miss[THEN conjunct1, rule_format, OF exchange_deny]
    by (auto simp: cacheAdd_def cfgOf_def)
  have allow: "VerifyAccess liveCtx (busyEnv 503 2 ''allow'') (cfgOf 5) Map.empty pushPullInfo =
     Some (None, [''tPushPull'' \<mapsto> (Some \<lparr>Allowed = True, Reason = []\<rparr>, 10)], 3)"
    using miss[THEN conjunct1, rule_format, OF exchange_allow]
    by (auto simp: cacheAdd_def cfgOf_def)
  have other: "VerifyAccess liveCtx (busyEnv 404 2 ''allow'') (cfgOf 5) Map.empty pushPullInfo =
     Some (Some (Errorf ''unexpected status code from webhook: 404''), Map.empty, 1)"
    using miss[THEN conjunct1, rule_format, OF exchange_not_found]
    by simp
  have p: "httpPost (busyEnv 503 0 ''deny'') 0 (AuthWebhookURL (cfgOf 5)) ''tPushPull''
             = PostResponse StatusOK ''deny''"
    by (simp add: busyEnv_def StatusOK_def)
  have d: "NewAuthWebhookResponse (busyEnv 503 0 ''deny'') ''deny''
             = Inr \<lparr>Allowed = False, Reason = ''no''\<rparr>"
    by (simp add: busyEnv_def decodeBody_def)
  have at_once: "VerifyAccess liveCtx (busyEnv 503 0 ''deny'') (cfgOf 5) Map.empty pushPullInfo =
     Some (Some (ErrorfW ''no: method is not allowed for this user'' ErrNotAllowed),
           [''tPushPull'' \<mapsto> (Some \<lparr>Allowed = False, Reason = ''no''\<rparr>, 20)], 1)"
    using miss[THEN conjunct2, THEN conjunct2, THEN conjunct1, rule_format, OF p d]
    by (simp add: cacheAdd_def cfgOf_def Errorf_s_w_def)
  from a b c deny allow other at_once show ?thesis
    by (intro conjI)
qed

section \<open>Properties of the PushPull engine\<close>







lemma PushPull_pull_only:
  "PushPull (testBackend free) 0 clientInfo0 docInfo0 pullOnlyPack =
     (Inr (pullOnlyPack\<lparr>MinSyncedTicket := Some ticket10\<rparr>), 0,
      [CallPushChanges 10,
       CallPullPack \<lparr>ClientSeq = 3, Checkpoint.ServerSeq = 10\<rparr> 10,
       CallUpdateCheckpoint ''d1'' \<lparr>ClientSeq = 3, Checkpoint.ServerSeq = 10\<rparr>,
       CallUpdateClientInfoAfterPushPull,
       CallUpdateAndFindMinSyncedTicket clientInfo0 ''d1'' 10 (Inr (Some ticket10))],
      None)"
  by (simp add: PushPull_def testBackend_def clientInfo0_def docInfo0_def pushPack_def
        pullOnlyPack_def HasChanges_def ticket10_def)







end
